theory Spec2Isabelle
  imports Main "HOL-Library.Multiset" "HOL-Library.Sublist"
begin

section \<open>Friends tab: the streak leaderboard\<close>

text \<open>
  \<^verbatim>\<open>src/frontend/src/components/FriendsTab.js\<close> keeps the friends fetched from
  \<^verbatim>\<open>/api/friends\<close> in the React state array \<^verbatim>\<open>friends\<close>. The fields the component reads
  from each element are \<^verbatim>\<open>id\<close>, \<^verbatim>\<open>name\<close>, \<^verbatim>\<open>current_streak\<close> and \<^verbatim>\<open>longest_streak\<close>.
  Streak values are JSON integers; they are modelled as \<open>int\<close>.
\<close>

record friend =
  friend_id :: string
  name :: string
  current_streak :: int
  longest_streak :: int

text \<open>
  The comparator handed to \<^verbatim>\<open>Array.prototype.sort\<close> (line 273):
  \<^verbatim>\<open>(a, b) => b.current_streak - a.current_streak\<close>.
\<close>

definition compareFn :: "friend \<Rightarrow> friend \<Rightarrow> int" where
  "compareFn a b = current_streak b - current_streak a"

text \<open>
  \<^verbatim>\<open>Array.prototype.sort\<close> with a comparator: an element goes before another one when the
  comparator is negative, and elements that compare as equal keep their order (the sort
  is stable since ECMAScript 2019). The model is the stable insertion sort; the lemma
  \<open>array_sort_unique\<close> below shows that every stable sorting procedure returns the same
  array for this comparator.
\<close>

fun insertBy :: "('a \<Rightarrow> 'a \<Rightarrow> int) \<Rightarrow> 'a \<Rightarrow> 'a list \<Rightarrow> 'a list" where
  "insertBy cmp x [] = [x]"
| "insertBy cmp x (y # ys) =
     (if cmp x y \<le> 0 then x # y # ys else y # insertBy cmp x ys)"

fun array_sort :: "('a \<Rightarrow> 'a \<Rightarrow> int) \<Rightarrow> 'a list \<Rightarrow> 'a list" where
  "array_sort cmp [] = []"
| "array_sort cmp (x # xs) = insertBy cmp x (array_sort cmp xs)"

text \<open>
  \<^verbatim>\<open>Array.prototype.slice(begin, end)\<close> for indices that are not negative: a copy of the
  elements from \<open>begin\<close> up to, not including, \<open>end\<close>, cut at the end of the array.
\<close>

definition slice :: "nat \<Rightarrow> nat \<Rightarrow> 'a list \<Rightarrow> 'a list" where
  "slice b e xs = take (e - b) (drop b xs)"

text \<open>
  One row of the leaderboard preview (lines 275 to 291): the badge shows \<open>index + 1\<close>,
  next to it the friend's name and current streak.
\<close>

record leaderboard_row =
  rank :: nat
  row_key :: string
  display_name :: string
  row_streak :: int

definition make_row :: "nat \<times> friend \<Rightarrow> leaderboard_row" where
  "make_row p = \<lparr>rank = fst p + 1, row_key = friend_id (snd p),
                 display_name = name (snd p), row_streak = current_streak (snd p)\<rparr>"

text \<open>
  Lines 265 to 295. \<^verbatim>\<open>friends.sort(...)\<close> sorts the state array itself and returns it, so
  the render has two results: the array \<^verbatim>\<open>friends\<close> as it is afterwards, and the rows
  drawn. With no friends the block is not rendered and nothing is sorted.
\<close>

definition ranked :: "friend list \<Rightarrow> friend list" where
  "ranked friends = slice 0 3 (array_sort compareFn friends)"

definition renderLeaderboard :: "friend list \<Rightarrow> friend list \<times> leaderboard_row list" where
  "renderLeaderboard friends =
     (if length friends > 0
      then (array_sort compareFn friends, map make_row (enumerate 0 (ranked friends)))
      else (friends, []))"

definition friends_after :: "friend list \<Rightarrow> friend list" where
  "friends_after friends = fst (renderLeaderboard friends)"

definition leaderboard :: "friend list \<Rightarrow> leaderboard_row list" where
  "leaderboard friends = snd (renderLeaderboard friends)"

section \<open>JavaScript values and property lookup\<close>

text \<open>
  \<^verbatim>\<open>getActivityIcon\<close> and \<^verbatim>\<open>getEstimatedCalories\<close> index an object literal with the
  activity type and apply \<^verbatim>\<open>||\<close> to what they find. The values that can occur: \<^verbatim>\<open>undefined\<close>,
  a number, \<^verbatim>\<open>NaN\<close>, one of the four emoji string literals, and a member that the literal
  inherits from \<^verbatim>\<open>Object.prototype\<close>. A number is a double; the finite numbers that occur
  here are integers, \<open>JNumber n\<close> is the double whose value is the integer \<open>n\<close> (both zeros
  are \<open>JNumber 0\<close>), and the two infinities are values of their own.
\<close>

datatype emoji = ManLiftingWeights | ManRunning | ManWalking | ManInLotusPosition

datatype js_value =
    JUndefined
  | JNumber int
  | JInfinity
  | JNegInfinity
  | JNaN
  | JEmoji emoji
  | JInherited string

text \<open>
  The property names every object literal inherits from \<^verbatim>\<open>Object.prototype\<close>. All of them
  are functions, except \<^verbatim>\<open>__proto__\<close>, an accessor that yields \<^verbatim>\<open>Object.prototype\<close> itself.
\<close>

definition object_prototype_keys :: "string list" where
  "object_prototype_keys =
     [''constructor'', ''hasOwnProperty'', ''isPrototypeOf'', ''propertyIsEnumerable'',
      ''toLocaleString'', ''toString'', ''valueOf'', ''__proto__'',
      ''__defineGetter__'', ''__defineSetter__'', ''__lookupGetter__'', ''__lookupSetter__'']"

text \<open>
  \<^verbatim>\<open>obj[key]\<close> on an object literal with the given own properties: the own property when
  there is one, else the inherited member, else \<^verbatim>\<open>undefined\<close>.
\<close>

definition get_property :: "(string \<times> js_value) list \<Rightarrow> string \<Rightarrow> js_value" where
  "get_property own key =
     (case map_of own key of
        Some v \<Rightarrow> v
      | None \<Rightarrow> if key \<in> set object_prototype_keys then JInherited key else JUndefined)"

text \<open>
  Truthiness: \<^verbatim>\<open>undefined\<close>, \<^verbatim>\<open>0\<close> and \<^verbatim>\<open>NaN\<close> are falsy; an infinity, a string literal that
  is not empty, a function and an object are truthy.
\<close>

fun truthy :: "js_value \<Rightarrow> bool" where
  "truthy JUndefined = False"
| "truthy (JNumber n) = (n \<noteq> 0)"
| "truthy JInfinity = True"
| "truthy JNegInfinity = True"
| "truthy JNaN = False"
| "truthy (JEmoji e) = True"
| "truthy (JInherited k) = True"

definition js_or :: "js_value \<Rightarrow> js_value \<Rightarrow> js_value" where
  "js_or a b = (if truthy a then a else b)"

text \<open>
  The product of two doubles is the exact product rounded to the nearest double, ties to
  the even significand, and an infinity once the rounded magnitude reaches \<open>2 ^ 1024\<close>.
  A double has a significand of 53 bits: below \<open>2 ^ 53\<close> the doubles that are integers lie
  1 apart, from \<open>2 ^ 53\<close> on 2 apart, from \<open>2 ^ 54\<close> on 4 apart, and so on. \<open>ulp m\<close> is
  that distance at the magnitude \<open>m\<close>, \<open>round_magnitude m\<close> the nearest multiple of it.
\<close>

function ulp :: "int \<Rightarrow> int" where
  "ulp m = (if m < 2 ^ 53 then 1 else 2 * ulp (m div 2))"
  by pat_completeness auto
termination
  by (relation "measure nat") auto

declare ulp.simps [simp del]

definition round_magnitude :: "int \<Rightarrow> int" where
  "round_magnitude m =
     (let u = ulp m; q = m div u; r = m mod u
      in if 2 * r > u \<or> (2 * r = u \<and> odd q) then (q + 1) * u else q * u)"

definition double_overflow :: int where
  "double_overflow = 2 ^ 1024"

definition number_value :: "int \<Rightarrow> js_value" where
  "number_value n =
     (if round_magnitude \<bar>n\<bar> \<ge> double_overflow
      then (if n < 0 then JNegInfinity else JInfinity)
      else JNumber (sgn n * round_magnitude \<bar>n\<bar>))"

text \<open>
  \<^verbatim>\<open>a * b\<close>: both operands go through ToNumber. \<^verbatim>\<open>undefined\<close> becomes \<^verbatim>\<open>NaN\<close>; a function or
  an object becomes a string first (its source text, or \<^verbatim>\<open>[object Object]\<close>) and that string
  is not a numeral, so it becomes \<^verbatim>\<open>NaN\<close> as well, and so does an emoji string. With a
  \<^verbatim>\<open>NaN\<close> operand, or with an infinity times zero, the product is \<^verbatim>\<open>NaN\<close>; an infinity
  times anything else is an infinity with the sign of the product.
\<close>

fun to_number :: "js_value \<Rightarrow> js_value" where
  "to_number (JNumber n) = JNumber n"
| "to_number JInfinity = JInfinity"
| "to_number JNegInfinity = JNegInfinity"
| "to_number v = JNaN"

fun negative :: "js_value \<Rightarrow> bool" where
  "negative (JNumber n) = (n < 0)"
| "negative JNegInfinity = True"
| "negative v = False"

definition js_mul :: "js_value \<Rightarrow> js_value \<Rightarrow> js_value" where
  "js_mul a b =
     (case (to_number a, to_number b) of
        (JNumber m, JNumber n) \<Rightarrow> number_value (m * n)
      | (x, y) \<Rightarrow>
          if x = JNaN \<or> y = JNaN \<or> x = JNumber 0 \<or> y = JNumber 0 then JNaN
          else if negative x = negative y then JInfinity else JNegInfinity)"

section \<open>Activity icons and estimated calories\<close>

text \<open>
  \<^verbatim>\<open>StreakCalendar.js\<close>, lines 56 to 64, and the same function in \<^verbatim>\<open>Dashboard.js\<close>, lines 43
  to 51: \<^verbatim>\<open>return icons[type] || (man running)\<close>.
\<close>

definition icons :: "(string \<times> js_value) list" where
  "icons = [(''gym'', JEmoji ManLiftingWeights), (''run'', JEmoji ManRunning),
            (''walk'', JEmoji ManWalking), (''yoga'', JEmoji ManInLotusPosition)]"

definition getActivityIcon :: "string \<Rightarrow> js_value" where
  "getActivityIcon type = js_or (get_property icons type) (JEmoji ManRunning)"

text \<open>
  \<^verbatim>\<open>ActivityLogger.js\<close>, lines 65 to 74:
  \<^verbatim>\<open>return caloriesPerMinute[type] * duration || 0\<close>. The duration is the integer that
  \<^verbatim>\<open>parseInt\<close> made of the form field, a double.
\<close>

definition caloriesPerMinute :: "(string \<times> js_value) list" where
  "caloriesPerMinute = [(''gym'', JNumber 8), (''run'', JNumber 12),
                        (''walk'', JNumber 4), (''yoga'', JNumber 3)]"

definition getEstimatedCalories :: "string \<Rightarrow> int \<Rightarrow> js_value" where
  "getEstimatedCalories type duration =
     js_or (js_mul (get_property caloriesPerMinute type) (JNumber duration)) (JNumber 0)"

text \<open>The rate table as the claim reads it, for comparison with the code.\<close>

fun rate :: "string \<Rightarrow> int option" where
  "rate type =
     (if type = ''gym'' then Some 8
      else if type = ''run'' then Some 12
      else if type = ''walk'' then Some 4
      else if type = ''yoga'' then Some 3
      else None)"

section \<open>Dates and the local time zone\<close>


















section \<open>Streak calendar: activity on a date\<close>
















section \<open>Streak calculator\<close>

text \<open>
  The frontend only displays \<^verbatim>\<open>current_streak\<close> and \<^verbatim>\<open>longest_streak\<close> as \<^verbatim>\<open>/api/streak\<close>
  and \<^verbatim>\<open>/api/friends\<close> return them; the calculator that produces them is not among the
  source files. It is modelled from section 4.2 of the specification. A calendar date is
  its day number.
\<close>

type_synonym calendar_date = int

record streaks =
  result_current_streak :: nat
  result_longest_streak :: nat

text \<open>
  Modelled from the spec: the scan of the full recomputation, which is missing from the
  sources. "Maintain a running consecutive-day counter: increment when the next date is
  exactly one calendar day after the previous; reset to 1 on any gap or at sequence start.
  Track the maximum counter value seen as longest_streak." The arguments are the previous
  date, the counter, the maximum so far and the dates still to scan. On a date that is
  not the day after the previous one the counter restarts at 1.
\<close>

fun scan :: "calendar_date \<Rightarrow> nat \<Rightarrow> nat \<Rightarrow> calendar_date list \<Rightarrow> nat \<times> nat" where
  "scan prev counter longest [] = (counter, longest)"
| "scan prev counter longest (d # ds) =
     (let counter' = (if d = prev + 1 then counter + 1 else 1)
      in scan d counter' (max longest counter') ds)"

text \<open>
  Modelled from the spec: \<^verbatim>\<open>compute(activeDays, today)\<close>, missing from the sources.
  "current_streak is the running counter value of the trailing consecutive run, but only
  if that run's last date is today or today - 1 day. If the trailing run ends more than
  one day before today, current_streak is 0. Empty activeDays yields {0, 0}."
\<close>

fun compute :: "calendar_date list \<Rightarrow> calendar_date \<Rightarrow> streaks" where
  "compute [] today = \<lparr>result_current_streak = 0, result_longest_streak = 0\<rparr>"
| "compute (d # ds) today =
     (case scan d 1 1 ds of
        (counter, longest) \<Rightarrow>
          \<lparr>result_current_streak =
             (if last (d # ds) = today \<or> last (d # ds) = today - 1 then counter else 0),
           result_longest_streak = longest\<rparr>)"

text \<open>
  The length of the trailing consecutive run, read off the end of the sequence: the
  number of dates at the end of which each is the day after the one before it.
\<close>

fun run_from_end :: "calendar_date list \<Rightarrow> nat" where
  "run_from_end [] = 0"
| "run_from_end [d] = 1"
| "run_from_end (d # e # ds) = (if d = e + 1 then Suc (run_from_end (e # ds)) else 1)"

definition trailing_run :: "calendar_date list \<Rightarrow> nat" where
  "trailing_run days = run_from_end (rev days)"

text \<open>
  Modelled from the spec: the StreakState of section 3, missing from the sources:
  "{ user_id, current_streak, longest_streak, last_active_date: optional date, updated_at }",
  "created lazily on a user's first activity (default zeros before that)".
\<close>

record StreakState =
  user_id :: string
  state_current_streak :: nat
  state_longest_streak :: nat
  last_active_date :: "calendar_date option"
  updated_at :: int

definition zeroed :: "string \<Rightarrow> int \<Rightarrow> StreakState" where
  "zeroed uid now = \<lparr>user_id = uid, state_current_streak = 0, state_longest_streak = 0,
                     last_active_date = None, updated_at = now\<rparr>"

datatype streak_error = OutOfOrderActivity

text \<open>
  Modelled from the spec: \<^verbatim>\<open>applyNewActivity(state, newDay, today)\<close>, the incremental
  path, missing from the sources. The same day: no change. The day after the last active
  date, or no last active date: the current streak goes up by one (becomes 1 if unset),
  the longest streak becomes the maximum of itself and the current streak. A gap of more
  than one day: the current streak resets to 1, the longest streak is unchanged. An
  earlier day: the update is invalid and the caller has to recompute.
\<close>

definition applyNewActivity ::
  "StreakState \<Rightarrow> calendar_date \<Rightarrow> calendar_date \<Rightarrow> streak_error + StreakState" where
  "applyNewActivity state newDay today =
     (case last_active_date state of
        None \<Rightarrow>
          Inr (state\<lparr>state_current_streak := 1, last_active_date := Some newDay,
                      state_longest_streak := max (state_longest_streak state) 1\<rparr>)
      | Some lastDay \<Rightarrow>
          if newDay = lastDay then Inr state
          else if newDay = lastDay + 1 then
            Inr (state\<lparr>state_current_streak := state_current_streak state + 1,
                        last_active_date := Some newDay,
                        state_longest_streak :=
                          max (state_longest_streak state) (state_current_streak state + 1)\<rparr>)
          else if newDay > lastDay + 1 then
            Inr (state\<lparr>state_current_streak := 1, last_active_date := Some newDay\<rparr>)
          else Inl OutOfOrderActivity)"

text \<open>
  Modelled from the spec: the refresh of a StreakState "by a full recomputation pass",
  missing from the sources. Both streaks come from \<open>compute\<close> over the user's active
  days; the last active date is the last of these days, unset when there is none.
\<close>

definition recompute :: "StreakState \<Rightarrow> calendar_date list \<Rightarrow> calendar_date \<Rightarrow> StreakState" where
  "recompute state activeDays today =
     state\<lparr>state_current_streak := result_current_streak (compute activeDays today),
            state_longest_streak := result_longest_streak (compute activeDays today),
            last_active_date := (if activeDays = [] then None else Some (last activeDays))\<rparr>"

text \<open>
  Modelled from the spec: the states the system produces. A state starts zeroed and
  changes only through the incremental update, the full recomputation, and the cache
  write that refreshes \<open>updated_at\<close>.
\<close>

inductive produced :: "StreakState \<Rightarrow> bool" where
  produced_zeroed: "produced (zeroed uid now)"
| produced_apply:
    "produced state \<Longrightarrow> applyNewActivity state newDay today = Inr state'
       \<Longrightarrow> produced state'"
| produced_recompute: "produced state \<Longrightarrow> produced (recompute state activeDays today)"
| produced_write: "produced state \<Longrightarrow> produced (state\<lparr>updated_at := now\<rparr>)"

text \<open>
  What the proof of the invariant carries along: the longest streak is at least the
  current one, and a state that has a last active date has a longest streak of at least 1.
\<close>

definition state_ok :: "StreakState \<Rightarrow> bool" where
  "state_ok s \<longleftrightarrow> state_current_streak s \<le> state_longest_streak s
      \<and> (last_active_date s \<noteq> None \<longrightarrow> 1 \<le> state_longest_streak s)"

text \<open>The dates of the examples: the days of January 2024, as day numbers since the epoch.\<close>

definition jan :: "nat \<Rightarrow> calendar_date" where
  "jan n = 19722 + int n"

section \<open>The sort, related to the library's stable sort\<close>

lemma insertBy_compareFn:
  "insertBy compareFn x ys = insort_key (\<lambda>f. - current_streak f) x ys"
  by (induction ys) (simp_all add: compareFn_def)

lemma array_sort_compareFn:
  "array_sort compareFn fs = sort_key (\<lambda>f. - current_streak f) fs"
  by (induction fs) (simp_all add: insertBy_compareFn)

lemma mset_array_sort: "mset (array_sort compareFn fs) = mset fs"
  by (simp add: array_sort_compareFn)

lemma length_array_sort: "length (array_sort compareFn fs) = length fs"
  by (simp add: array_sort_compareFn)

lemma sorted_array_sort:
  "sorted_wrt (\<lambda>a b. current_streak a \<ge> current_streak b) (array_sort compareFn fs)"
proof -
  have "sorted (map (\<lambda>f. - current_streak f) (array_sort compareFn fs))"
    by (simp add: array_sort_compareFn)
  then show ?thesis
    by (simp add: sorted_map sorted_wrt_iff_nth_less)
qed

lemma array_sort_stable:
  "filter (\<lambda>f. current_streak f = k) (array_sort compareFn fs)
     = filter (\<lambda>f. current_streak f = k) fs"
proof -
  have "filter (\<lambda>f. - current_streak f = - k) (sort_key (\<lambda>f. - current_streak f) fs)
          = filter (\<lambda>f. - current_streak f = - k) fs"
    by (rule sort_key_stable)
  then show ?thesis by (simp add: array_sort_compareFn)
qed

lemma map_row_streak:
  "map row_streak (map make_row (enumerate n fs)) = map current_streak fs"
  by (induction fs arbitrary: n) (simp_all add: make_row_def)

lemma leaderboard_eq:
  "leaderboard fs = map make_row (enumerate 0 (ranked fs))"
  by (cases fs) (simp_all add: leaderboard_def renderLeaderboard_def ranked_def slice_def)

lemma leaderboard_streaks:
  "map row_streak (leaderboard fs) = map current_streak (ranked fs)"
  unfolding leaderboard_eq by (rule map_row_streak)

lemma map_row_key:
  "map row_key (map make_row (enumerate n fs)) = map friend_id fs"
  by (induction fs arbitrary: n) (simp_all add: make_row_def)

lemma ranked_descending:
  "sorted_wrt (\<lambda>a b. current_streak a \<ge> current_streak b) (ranked fs)"
  unfolding ranked_def slice_def
  by (simp add: sorted_wrt_take sorted_array_sort)

lemma array_sort_sorted_id:
  "array_sort compareFn (array_sort compareFn fs) = array_sort compareFn fs"
  by (simp add: array_sort_compareFn sort_key_id_if_sorted)

text \<open>
  The array after sorting is fixed by the input alone: any arrangement of the same
  elements that is descending by current streak and keeps equal streaks in input order
  is the one \<open>array_sort\<close> returns, whatever procedure the engine runs.
\<close>

lemma array_sort_unique:
  assumes "mset ys = mset fs"
    and "sorted_wrt (\<lambda>a b. current_streak a \<ge> current_streak b) ys"
    and "\<And>k. filter (\<lambda>f. current_streak f = k) ys = filter (\<lambda>f. current_streak f = k) fs"
  shows "array_sort compareFn fs = ys"
proof -
  have "sorted (map (\<lambda>f. - current_streak f) ys)"
    using assms(2) by (simp add: sorted_map sorted_wrt_iff_nth_less)
  moreover have "filter (\<lambda>x. - current_streak k = - current_streak x) ys
                   = filter (\<lambda>x. - current_streak k = - current_streak x) fs" for k :: friend
    using assms(3) [of "current_streak k"] by (simp add: eq_commute)
  ultimately have "sort_key (\<lambda>f. - current_streak f) fs = ys"
    using assms(1) by (intro properties_for_sort_key) simp_all
  then show ?thesis by (simp add: array_sort_compareFn)
qed

lemma rows_key_streak:
  "map (\<lambda>r. (row_key r, row_streak r)) (map make_row (enumerate n fs))
     = map (\<lambda>f. (friend_id f, current_streak f)) fs"
  by (induction fs arbitrary: n) (simp_all add: make_row_def)

lemma friends_after_eq: "friends_after fs = array_sort compareFn fs"
  by (cases fs) (simp_all add: friends_after_def renderLeaderboard_def)

lemma friends_after_mset: "mset (friends_after fs) = mset fs"
  by (simp add: friends_after_eq mset_array_sort)

section \<open>Properties of the leaderboard\<close>

text \<open>
  C7. For every array of n friends the leaderboard has at most n rows.
\<close>

theorem leaderboard_at_most_friend_count:
  "length (leaderboard fs) \<le> length fs"
  by (simp add: leaderboard_eq ranked_def slice_def length_array_sort)

text \<open>
  C5. The leaderboard is descending by current streak: every row's streak is at least
  the streak of each row after it, in particular of the row that follows it.
\<close>

theorem leaderboard_descending:
  "sorted_wrt (\<lambda>r s. row_streak r \<ge> row_streak s) (leaderboard fs)
   \<and> successively (\<lambda>r s. row_streak r \<ge> row_streak s) (leaderboard fs)"
proof -
  have "sorted_wrt (\<lambda>a b. a \<ge> b) (map current_streak (ranked fs))"
    using ranked_descending [of fs] by (simp add: sorted_wrt_map)
  then have "sorted_wrt (\<lambda>a b. a \<ge> b) (map row_streak (leaderboard fs))"
    by (simp only: leaderboard_streaks)
  then have "sorted_wrt (\<lambda>r s. row_streak r \<ge> row_streak s) (leaderboard fs)"
    by (simp add: sorted_wrt_map)
  then show ?thesis
    by (simp add: successively_if_sorted_wrt)
qed

text \<open>
  C1, as stated, fails. Two friends with current streak 5 and longest streaks 8 and 10,
  in this order in the array: the comparator reads \<open>current_streak\<close> only, the two compare
  as equal, and the friend with longest streak 8 gets rank 1.
\<close>

theorem tie_ignores_longest_streak:
  "leaderboard
     [\<lparr>friend_id = ''u1'', name = ''Ann'', current_streak = 5, longest_streak = 8\<rparr>,
      \<lparr>friend_id = ''u2'', name = ''Bob'', current_streak = 5, longest_streak = 10\<rparr>]
   = [\<lparr>rank = 1, row_key = ''u1'', display_name = ''Ann'', row_streak = 5\<rparr>,
      \<lparr>rank = 2, row_key = ''u2'', display_name = ''Bob'', row_streak = 5\<rparr>]"
  by (simp add: leaderboard_def renderLeaderboard_def ranked_def slice_def compareFn_def
      make_row_def enumerate_eq_zip)

text \<open>
  C1, amended. Rows with equal current streak stand in the order their friends have in
  the \<^verbatim>\<open>friends\<close> array: for every streak value k, the keys of the rows with streak k are
  an initial part of the ids of the friends with streak k, in array order. The longest
  streak and the id take no part in the order.
\<close>

theorem ties_keep_input_order:
  "prefix (map row_key (filter (\<lambda>r. row_streak r = k) (leaderboard fs)))
          (map friend_id (filter (\<lambda>f. current_streak f = k) fs))"
proof -
  have "map row_key (filter (\<lambda>r. row_streak r = k) (leaderboard fs))
          = map fst (filter (\<lambda>p. snd p = k) (map (\<lambda>r. (row_key r, row_streak r)) (leaderboard fs)))"
    by (simp add: filter_map comp_def)
  also have "\<dots> = map fst (filter (\<lambda>p. snd p = k)
                      (map (\<lambda>f. (friend_id f, current_streak f)) (ranked fs)))"
    unfolding leaderboard_eq by (simp only: rows_key_streak)
  also have "\<dots> = map friend_id (filter (\<lambda>f. current_streak f = k) (ranked fs))"
    by (simp add: filter_map comp_def)
  finally have eq: "map row_key (filter (\<lambda>r. row_streak r = k) (leaderboard fs))
          = map friend_id (filter (\<lambda>f. current_streak f = k) (ranked fs))" .
  have "prefix (ranked fs) (array_sort compareFn fs)"
    by (simp add: ranked_def slice_def take_is_prefix)
  then have "prefix (filter (\<lambda>f. current_streak f = k) (ranked fs))
                    (filter (\<lambda>f. current_streak f = k) (array_sort compareFn fs))"
    by (rule filter_mono_prefix)
  then have "prefix (filter (\<lambda>f. current_streak f = k) (ranked fs))
                    (filter (\<lambda>f. current_streak f = k) fs)"
    by (simp only: array_sort_stable)
  then show ?thesis
    unfolding eq by (rule map_mono_prefix)
qed

text \<open>
  C4. At the array holding Ann (streak 1) before Bob (streak 2), the render leaves the
  state array \<^verbatim>\<open>friends\<close> holding Bob before Ann: \<^verbatim>\<open>sort\<close> works in place, so the input
  collection does not keep its original order. (The elements themselves are kept, see
  \<open>friends_after_mset\<close>.)
\<close>

theorem render_reorders_friends:
  "friends_after
     [\<lparr>friend_id = ''u1'', name = ''Ann'', current_streak = 1, longest_streak = 4\<rparr>,
      \<lparr>friend_id = ''u2'', name = ''Bob'', current_streak = 2, longest_streak = 2\<rparr>]
   = [\<lparr>friend_id = ''u2'', name = ''Bob'', current_streak = 2, longest_streak = 2\<rparr>,
      \<lparr>friend_id = ''u1'', name = ''Ann'', current_streak = 1, longest_streak = 4\<rparr>]"
  by (simp add: friends_after_def renderLeaderboard_def compareFn_def)

text \<open>
  C6. The ranking is fixed by the \<^verbatim>\<open>friends\<close> array alone. The one piece of state a run
  leaves behind, the array sorted in place, does not change the next run: rendering again
  draws the same rows in the same order and leaves the array as it is. And the order does
  not depend on the sorting procedure: any arrangement of the same friends that is
  descending by current streak and keeps friends with equal streaks in their input order
  is the array after the render, and gives the rows drawn, ties included.
\<close>

theorem ranking_deterministic:
  "renderLeaderboard (friends_after fs) = (friends_after fs, leaderboard fs)
   \<and> (mset ys = mset fs
        \<and> sorted_wrt (\<lambda>a b. current_streak a \<ge> current_streak b) ys
        \<and> (\<forall>k. filter (\<lambda>f. current_streak f = k) ys = filter (\<lambda>f. current_streak f = k) fs)
      \<longrightarrow> friends_after fs = ys
          \<and> leaderboard fs = map make_row (enumerate 0 (slice 0 3 ys)))"
proof -
  have twice: "renderLeaderboard (friends_after fs) = (friends_after fs, leaderboard fs)"
  proof (cases fs)
    case Nil
    then show ?thesis
      by (simp add: friends_after_def leaderboard_def renderLeaderboard_def)
  next
    case (Cons f fs')
    have "length (friends_after fs) = length fs"
      by (simp only: friends_after_eq length_array_sort)
    with Cons have "length (friends_after fs) > 0"
      by simp
    then show ?thesis
      by (simp add: renderLeaderboard_def leaderboard_eq ranked_def friends_after_eq
          array_sort_sorted_id)
  qed
  have "friends_after fs = ys \<and> leaderboard fs = map make_row (enumerate 0 (slice 0 3 ys))"
    if "mset ys = mset fs"
      and "sorted_wrt (\<lambda>a b. current_streak a \<ge> current_streak b) ys"
      and "\<forall>k. filter (\<lambda>f. current_streak f = k) ys = filter (\<lambda>f. current_streak f = k) fs"
  proof -
    have "array_sort compareFn fs = ys"
      using that by (intro array_sort_unique) simp_all
    then show ?thesis
      by (simp add: friends_after_eq leaderboard_eq ranked_def)
  qed
  with twice show ?thesis
    by blast
qed

theorem ranking_deterministic_witness:
  "mset [\<lparr>friend_id = ''u3'', name = ''Cyd'', current_streak = 7, longest_streak = 7\<rparr>,
         \<lparr>friend_id = ''u1'', name = ''Ann'', current_streak = 5, longest_streak = 8\<rparr>,
         \<lparr>friend_id = ''u2'', name = ''Bob'', current_streak = 5, longest_streak = 10\<rparr>]
     = mset [\<lparr>friend_id = ''u1'', name = ''Ann'', current_streak = 5, longest_streak = 8\<rparr>,
         \<lparr>friend_id = ''u2'', name = ''Bob'', current_streak = 5, longest_streak = 10\<rparr>,
         \<lparr>friend_id = ''u3'', name = ''Cyd'', current_streak = 7, longest_streak = 7\<rparr>]
   \<and> friends_after
        [\<lparr>friend_id = ''u1'', name = ''Ann'', current_streak = 5, longest_streak = 8\<rparr>,
         \<lparr>friend_id = ''u2'', name = ''Bob'', current_streak = 5, longest_streak = 10\<rparr>,
         \<lparr>friend_id = ''u3'', name = ''Cyd'', current_streak = 7, longest_streak = 7\<rparr>]
     = [\<lparr>friend_id = ''u3'', name = ''Cyd'', current_streak = 7, longest_streak = 7\<rparr>,
         \<lparr>friend_id = ''u1'', name = ''Ann'', current_streak = 5, longest_streak = 8\<rparr>,
         \<lparr>friend_id = ''u2'', name = ''Bob'', current_streak = 5, longest_streak = 10\<rparr>]"
proof -
  let ?fs = "[\<lparr>friend_id = ''u1'', name = ''Ann'', current_streak = 5, longest_streak = 8\<rparr>,
         \<lparr>friend_id = ''u2'', name = ''Bob'', current_streak = 5, longest_streak = 10\<rparr>,
         \<lparr>friend_id = ''u3'', name = ''Cyd'', current_streak = 7, longest_streak = 7\<rparr>]"
  let ?ys = "[\<lparr>friend_id = ''u3'', name = ''Cyd'', current_streak = 7, longest_streak = 7\<rparr>,
         \<lparr>friend_id = ''u1'', name = ''Ann'', current_streak = 5, longest_streak = 8\<rparr>,
         \<lparr>friend_id = ''u2'', name = ''Bob'', current_streak = 5, longest_streak = 10\<rparr>]"
  have m: "mset ?ys = mset ?fs" by simp
  have s: "sorted_wrt (\<lambda>a b. current_streak a \<ge> current_streak b) ?ys" by simp
  have f: "\<forall>k. filter (\<lambda>f. current_streak f = k) ?ys = filter (\<lambda>f. current_streak f = k) ?fs"
    by simp
  show ?thesis
    using ranking_deterministic [of ?fs ?ys] m s f by blast
qed

section \<open>Activity icons and estimated calories: properties\<close>

lemma getActivityIcon_default:
  "type \<notin> {''gym'', ''run'', ''walk'', ''yoga''} \<Longrightarrow> type \<notin> set object_prototype_keys
     \<Longrightarrow> getActivityIcon type = JEmoji ManRunning"
  by (simp add: getActivityIcon_def js_or_def get_property_def icons_def)

lemma getActivityIcon_known:
  "getActivityIcon ''gym'' = JEmoji ManLiftingWeights"
  "getActivityIcon ''run'' = JEmoji ManRunning"
  "getActivityIcon ''walk'' = JEmoji ManWalking"
  "getActivityIcon ''yoga'' = JEmoji ManInLotusPosition"
  by (simp_all add: getActivityIcon_def js_or_def get_property_def icons_def)

lemma ulp_small: "m < 2 ^ 53 \<Longrightarrow> ulp m = 1"
  by (simp add: ulp.simps)

lemma ulp_2_53: "ulp 9007199254740992 = 2"
  by (simp add: ulp.simps)

lemma ulp_pos: "0 < ulp m"
  by (induction m rule: ulp.induct) (subst ulp.simps, simp)

lemma ulp_le: "0 < m \<Longrightarrow> ulp m \<le> m"
proof (induction m rule: ulp.induct)
  case (1 m)
  show ?case
  proof (cases "m < 2 ^ 53")
    case True
    with "1.prems" show ?thesis by (simp add: ulp_small)
  next
    case False
    then have "0 < m div 2" by simp
    with False "1.IH" have "ulp (m div 2) \<le> m div 2" by simp
    then have "2 * ulp (m div 2) \<le> m" by simp
    with False show ?thesis by (subst ulp.simps) simp
  qed
qed

lemma round_magnitude_exact:
  assumes "0 \<le> m" and "m \<le> 2 ^ 53"
  shows "round_magnitude m = m"
proof (cases "m = 2 ^ 53")
  case True
  then show ?thesis
    by (simp add: round_magnitude_def Let_def ulp_2_53)
next
  case False
  with assms have "m < 2 ^ 53" by simp
  then show ?thesis
    by (simp add: round_magnitude_def ulp_small)
qed

lemma round_magnitude_pos:
  assumes "0 < m"
  shows "0 < round_magnitude m"
proof -
  have u: "0 < ulp m" by (rule ulp_pos)
  have "ulp m \<le> m" using assms by (rule ulp_le)
  with u have "0 < m div ulp m"
    by (simp only: pos_imp_zdiv_pos_iff)
  then have q: "1 \<le> m div ulp m"
    by simp
  then have "0 < m div ulp m * ulp m" using u by simp
  moreover have "0 < (m div ulp m + 1) * ulp m" using q u by simp
  ultimately show ?thesis
    by (simp add: round_magnitude_def Let_def)
qed

lemma overflow_above_2_53: "2 ^ 53 < double_overflow"
  by (simp add: double_overflow_def)

lemma number_value_exact: "\<bar>n\<bar> \<le> 2 ^ 53 \<Longrightarrow> number_value n = JNumber n"
  using overflow_above_2_53
  by (simp add: number_value_def round_magnitude_exact mult_sgn_abs)

lemma number_value_kind:
  "number_value n \<noteq> JNaN" "number_value n \<noteq> JUndefined"
  by (simp_all add: number_value_def)

lemma number_value_truthy: "n \<noteq> 0 \<Longrightarrow> truthy (number_value n)"
  using round_magnitude_pos [of "\<bar>n\<bar>"]
  by (simp add: number_value_def sgn_if)

lemma estimated_calories_product:
  "getEstimatedCalories type duration =
     (case rate type of
        Some r \<Rightarrow> if r * duration \<noteq> 0 then number_value (r * duration) else JNumber 0
      | None \<Rightarrow> JNumber 0)"
proof -
  have z: "number_value 0 = JNumber 0"
    by (simp add: number_value_exact)
  have t: "truthy (number_value (r * duration))" if "duration \<noteq> 0" and "r \<noteq> 0" for r
    using that by (simp add: number_value_truthy)
  show ?thesis
    by (simp add: getEstimatedCalories_def js_or_def js_mul_def get_property_def
        caloriesPerMinute_def z t)
qed

text \<open>
  C9. At the type \<^verbatim>\<open>constructor\<close> the lookup \<^verbatim>\<open>icons[type]\<close> finds the member inherited from
  \<^verbatim>\<open>Object.prototype\<close>, which is truthy, so \<^verbatim>\<open>||\<close> does not reach the default: the function
  returns that member, not the running icon. For a type outside the four that is not such
  an inherited name the default is returned, see \<open>getActivityIcon_default\<close>.
\<close>

theorem getActivityIcon_inherited_key:
  "getActivityIcon ''constructor'' = JInherited ''constructor''"
  by (simp add: getActivityIcon_def js_or_def get_property_def icons_def object_prototype_keys_def)

text \<open>
  C10, as stated, fails. The duration 3002399751580331 is an integer below \<open>2 ^ 53\<close>, so a
  double holds it. Three times that is \<open>2 ^ 53 + 1\<close>, which no double holds: the product
  is rounded to \<open>2 ^ 53\<close>, and that is what the function returns for yoga, not the rate
  times the duration.
\<close>

theorem getEstimatedCalories_rounds:
  "getEstimatedCalories ''yoga'' 3002399751580331 = JNumber 9007199254740992
   \<and> getEstimatedCalories ''yoga'' 3002399751580331 \<noteq> JNumber (3 * 3002399751580331)"
  by (simp add: getEstimatedCalories_def js_or_def js_mul_def get_property_def
      caloriesPerMinute_def number_value_def round_magnitude_def ulp.simps double_overflow_def)

text \<open>
  C10, amended. For every integer duration, \<^verbatim>\<open>getEstimatedCalories(type, duration)\<close> is never
  \<^verbatim>\<open>NaN\<close> and never \<^verbatim>\<open>undefined\<close>; it is the number 0 when the type is not one of gym (8),
  run (12), walk (4), yoga (3) or the product of rate and duration is zero, and else the
  product rounded to the nearest double. Whenever the magnitude of the product is at most
  \<open>2 ^ 53\<close> that is the product itself.
\<close>

theorem getEstimatedCalories_table:
  "getEstimatedCalories type duration \<noteq> JNaN
   \<and> getEstimatedCalories type duration \<noteq> JUndefined
   \<and> getEstimatedCalories type duration =
       (case rate type of
          Some r \<Rightarrow> if r * duration \<noteq> 0 then number_value (r * duration) else JNumber 0
        | None \<Rightarrow> JNumber 0)
   \<and> ((\<forall>r. rate type = Some r \<longrightarrow> \<bar>r * duration\<bar> \<le> 2 ^ 53) \<longrightarrow>
        getEstimatedCalories type duration =
          (case rate type of
             Some r \<Rightarrow> if r * duration \<noteq> 0 then JNumber (r * duration) else JNumber 0
           | None \<Rightarrow> JNumber 0))"
proof -
  note p = estimated_calories_product [of type duration]
  have "getEstimatedCalories type duration \<noteq> JNaN"
    unfolding p by (simp add: number_value_kind split: option.split)
  moreover have "getEstimatedCalories type duration \<noteq> JUndefined"
    unfolding p by (simp add: number_value_kind split: option.split)
  moreover have "getEstimatedCalories type duration =
          (case rate type of
             Some r \<Rightarrow> if r * duration \<noteq> 0 then JNumber (r * duration) else JNumber 0
           | None \<Rightarrow> JNumber 0)"
    if "\<forall>r. rate type = Some r \<longrightarrow> \<bar>r * duration\<bar> \<le> 2 ^ 53"
  proof (cases "rate type")
    case None
    then show ?thesis unfolding p by simp
  next
    case (Some r)
    with that have "\<bar>r * duration\<bar> \<le> 2 ^ 53" by blast
    then have "number_value (r * duration) = JNumber (r * duration)"
      by (rule number_value_exact)
    with Some show ?thesis unfolding p by simp
  qed
  ultimately show ?thesis
    using p by blast
qed

theorem getEstimatedCalories_table_witness:
  "rate ''gym'' = Some 8 \<and> \<bar>8 * 1125899906842624\<bar> \<le> (2 ^ 53 :: int)
   \<and> getEstimatedCalories ''gym'' 1125899906842624 = JNumber 9007199254740992"
  using getEstimatedCalories_table [of "''gym''" 1125899906842624]
  by (simp add: number_value_exact)

section \<open>Dates and the local time zone: properties\<close>


































section \<open>Streak calendar: properties\<close>




section \<open>Streak calculator: properties\<close>

lemma scan_longest_ge:
  "counter \<le> longest \<Longrightarrow> fst (scan prev counter longest ds) \<le> snd (scan prev counter longest ds)"
  by (induction ds arbitrary: prev counter longest) (simp_all add: Let_def)

lemma scan_longest_pos:
  "1 \<le> longest \<Longrightarrow> 1 \<le> snd (scan prev counter longest ds)"
  by (induction ds arbitrary: prev counter longest) (simp_all add: Let_def)

lemma compute_invariant:
  "result_current_streak (compute days today) \<le> result_longest_streak (compute days today)"
proof (cases days)
  case Nil
  then show ?thesis by simp
next
  case (Cons d ds)
  have "fst (scan d 1 1 ds) \<le> snd (scan d 1 1 ds)"
    by (rule scan_longest_ge) simp
  with Cons show ?thesis
    by (simp add: split_beta)
qed

lemma compute_longest_pos:
  "days \<noteq> [] \<Longrightarrow> 1 \<le> result_longest_streak (compute days today)"
proof (cases days)
  case Nil
  assume "days \<noteq> []"
  with Nil show ?thesis by simp
next
  case (Cons d ds)
  have "1 \<le> snd (scan d 1 1 ds)"
    by (rule scan_longest_pos) simp
  with Cons show ?thesis
    by (simp add: split_beta)
qed

lemma produced_ok: "produced s \<Longrightarrow> state_ok s"
proof (induction rule: produced.induct)
  case (produced_zeroed uid now)
  show ?case by (simp add: state_ok_def zeroed_def)
next
  case (produced_apply state newDay today state')
  then show ?case
    by (auto simp: state_ok_def applyNewActivity_def split: option.splits if_splits)
next
  case (produced_recompute state activeDays today)
  show ?case
    using compute_invariant [of activeDays today] compute_longest_pos [of activeDays today]
    by (simp add: state_ok_def recompute_def)
next
  case (produced_write state now)
  then show ?case by (simp add: state_ok_def)
qed

lemma produced_example:
  "produced \<lparr>user_id = ''u1'', state_current_streak = 1, state_longest_streak = 2,
             last_active_date = Some 15, updated_at = 0\<rparr>"
proof -
  have s0: "produced (zeroed ''u1'' 0)" by (rule produced_zeroed)
  have "applyNewActivity (zeroed ''u1'' 0) 10 10
          = Inr \<lparr>user_id = ''u1'', state_current_streak = 1, state_longest_streak = 1,
             last_active_date = Some 10, updated_at = 0\<rparr>"
    by (simp add: applyNewActivity_def zeroed_def)
  with s0 have s1: "produced \<lparr>user_id = ''u1'', state_current_streak = 1, state_longest_streak = 1,
             last_active_date = Some 10, updated_at = 0\<rparr>"
    by (rule produced_apply)
  have "applyNewActivity \<lparr>user_id = ''u1'', state_current_streak = 1, state_longest_streak = 1,
             last_active_date = Some 10, updated_at = 0\<rparr> 11 11
          = Inr \<lparr>user_id = ''u1'', state_current_streak = 2, state_longest_streak = 2,
             last_active_date = Some 11, updated_at = 0\<rparr>"
    by (simp add: applyNewActivity_def)
  with s1 have s2: "produced \<lparr>user_id = ''u1'', state_current_streak = 2, state_longest_streak = 2,
             last_active_date = Some 11, updated_at = 0\<rparr>"
    by (rule produced_apply)
  have "applyNewActivity \<lparr>user_id = ''u1'', state_current_streak = 2, state_longest_streak = 2,
             last_active_date = Some 11, updated_at = 0\<rparr> 15 15
          = Inr \<lparr>user_id = ''u1'', state_current_streak = 1, state_longest_streak = 2,
             last_active_date = Some 15, updated_at = 0\<rparr>"
    by (simp add: applyNewActivity_def)
  with s2 show ?thesis
    by (rule produced_apply)
qed

lemma scan_snoc:
  "scan prev counter longest (ds @ [x]) =
     (let counter' = (if x = last (prev # ds) + 1 then fst (scan prev counter longest ds) + 1 else 1)
      in (counter', max (snd (scan prev counter longest ds)) counter'))"
  by (induction ds arbitrary: prev counter longest) (simp_all add: Let_def)

lemma run_from_end_step:
  assumes "xs \<noteq> []"
  shows "run_from_end (x # rev xs) = (if x = last xs + 1 then Suc (run_from_end (rev xs)) else 1)"
proof -
  from assms obtain e rest where r: "rev xs = e # rest"
    by (cases "rev xs") auto
  then have "hd (rev xs) = e" by simp
  with assms have "last xs = e" by (simp add: hd_rev)
  with r show ?thesis by simp
qed

lemma scan_counter_trailing_run:
  "fst (scan d 1 1 ds) = trailing_run (d # ds)"
proof (induction ds rule: rev_induct)
  case Nil
  show ?case by (simp add: trailing_run_def)
next
  case (snoc x ds)
  have "trailing_run (d # ds @ [x]) = run_from_end (x # rev (d # ds))"
    by (simp add: trailing_run_def)
  also have "\<dots> = (if x = last (d # ds) + 1 then Suc (run_from_end (rev (d # ds))) else 1)"
    by (rule run_from_end_step) simp
  also have "\<dots> = (if x = last (d # ds) + 1 then Suc (fst (scan d 1 1 ds)) else 1)"
    using snoc.IH by (simp add: trailing_run_def)
  finally show ?case
    by (simp add: scan_snoc Let_def)
qed

text \<open>
  C2. The longest streak is at least the current streak in the result of every full
  recomputation, for every sequence of active days, and in every state the system
  produces: the zeroed state has it, and the incremental update, the full recomputation
  and the cache write keep it.
\<close>

theorem longest_at_least_current:
  "result_current_streak (compute days today) \<le> result_longest_streak (compute days today)
   \<and> (produced s \<longrightarrow> state_current_streak s \<le> state_longest_streak s)"
  using compute_invariant [of days today] produced_ok [of s]
  by (simp add: state_ok_def)

theorem longest_at_least_current_witness:
  "produced \<lparr>user_id = ''u1'', state_current_streak = 1, state_longest_streak = 2,
             last_active_date = Some 15, updated_at = 0\<rparr>
   \<and> state_current_streak \<lparr>user_id = ''u1'', state_current_streak = 1,
             state_longest_streak = 2, last_active_date = Some 15, updated_at = 0\<rparr>
       \<le> state_longest_streak \<lparr>user_id = ''u1'', state_current_streak = 1,
             state_longest_streak = 2, last_active_date = Some 15, updated_at = 0\<rparr>
   \<and> result_current_streak (compute [jan 1, jan 2, jan 3] (jan 4))
       \<le> result_longest_streak (compute [jan 1, jan 2, jan 3] (jan 4))"
  using longest_at_least_current [of "[jan 1, jan 2, jan 3]" "jan 4"
      "\<lparr>user_id = ''u1'', state_current_streak = 1, state_longest_streak = 2,
        last_active_date = Some 15, updated_at = 0\<rparr>"] produced_example
  by simp

text \<open>
  C3. The grace period of the full recomputation: when the last active day is today or
  yesterday, the current streak is the length of the trailing consecutive run; when the
  last active day is more than one day before today, the current streak is 0. With the
  active days January 1, 2 and 3 the current streak is 3 on January 4 and 0 on January 5.
\<close>

theorem compute_grace_period:
  assumes "days \<noteq> []"
  shows "(last days = today \<or> last days = today - 1
            \<longrightarrow> result_current_streak (compute days today) = trailing_run days)
       \<and> (last days < today - 1 \<longrightarrow> result_current_streak (compute days today) = 0)"
proof -
  from assms obtain d ds where days: "days = d # ds"
    by (cases days) auto
  have "fst (scan d 1 1 ds) = trailing_run (d # ds)"
    by (rule scan_counter_trailing_run)
  then show ?thesis
    unfolding days by (simp add: split_beta)
qed

theorem compute_grace_period_witness:
  "[jan 1, jan 2, jan 3] \<noteq> []
   \<and> last [jan 1, jan 2, jan 3] = jan 4 - 1
   \<and> result_current_streak (compute [jan 1, jan 2, jan 3] (jan 4)) = 3
   \<and> last [jan 1, jan 2, jan 3] < jan 5 - 1
   \<and> result_current_streak (compute [jan 1, jan 2, jan 3] (jan 5)) = 0"
proof -
  have ne: "[jan 1, jan 2, jan 3] \<noteq> []" by simp
  have run: "trailing_run [jan 1, jan 2, jan 3] = 3"
    by (simp add: trailing_run_def jan_def)
  show ?thesis
    using compute_grace_period [OF ne, of "jan 4"] compute_grace_period [OF ne, of "jan 5"] run
    by (simp add: jan_def)
qed

end
